theory Spec2Isabelle
  imports Main
begin

section \<open>The single-device strategy of pytorch\_lightning\<close>

text \<open>
  A shallow embedding of \<^verbatim>\<open>src/pytorch_lightning/strategies/single_device.py\<close>:
  the class \<^verbatim>\<open>SingleDeviceStrategy\<close>, its constructor, its properties and its
  methods. The object \<^verbatim>\<open>self\<close> is a record, the process-wide state of the tensor
  runtime is a second record, and every method is a function from the pair of both to
  an outcome: either the method returned a value, or it raised. Python does not roll
  anything back when an exception is raised, so both outcomes carry the state they
  leave behind.
\<close>

subsection \<open>Devices, tensors and modules\<close>

text \<open>
  \<^verbatim>\<open>torch.device\<close>: a kind (\<^verbatim>\<open>"cpu"\<close>, \<^verbatim>\<open>"cuda"\<close>, \<^verbatim>\<open>"xla"\<close>, ...) and an optional
  index.
\<close>

record torch_device =
  dev_type :: string
  dev_index :: "int option"

definition cpu_device :: torch_device where
  "cpu_device = \<lparr>dev_type = ''cpu'', dev_index = None\<rparr>"

text \<open>
  Modelled from the spec: the tensor runtime is an external collaborator and not part of
  the repository. The spec describes a device descriptor as what ``identifies where
  tensors/model parameters must reside'', and relocation as moving ``the owned model's
  parameters/buffers'' onto a device. A tensor is therefore its payload and the device
  it resides on; a module is its parameters and its buffers.
\<close>

record 't tensor =
  data :: 't
  tdevice :: torch_device

record 't nn_module =
  parameters :: "'t tensor list"
  buffers :: "'t tensor list"

definition tensors :: "'t nn_module \<Rightarrow> 't tensor list" where
  "tensors m = parameters m @ buffers m"

text \<open>A module resides on a device when each of its tensors does.\<close>

definition resides :: "'t nn_module \<Rightarrow> torch_device \<Rightarrow> bool" where
  "resides m d = list_all (\<lambda>t. tdevice t = d) (tensors m)"

subsection \<open>The runtime and the exceptions\<close>

text \<open>
  The process-wide state the methods read or write: what \<^verbatim>\<open>torch.cuda.is_available()\<close>
  answers, the constant \<^verbatim>\<open>_XLA_AVAILABLE\<close>, the number of bytes the CUDA caching
  allocator holds in its pool (what \<^verbatim>\<open>torch.cuda.empty_cache()\<close> releases), and which
  devices the runtime can place a tensor on.
\<close>

record runtime =
  cuda_is_available :: bool
  XLA_AVAILABLE :: bool
  cuda_cache :: nat
  device_usable :: "torch_device \<Rightarrow> bool"

text \<open>
  The exceptions. \<^verbatim>\<open>AttributeError\<close> is what Python raises for a method call on
  \<^verbatim>\<open>None\<close>; \<open>UnavailableDevice\<close> and \<open>LifecycleViolation\<close> are the spec's names of
  its error kinds; \<open>OtherError\<close> is anything else a base-class hook may raise.
\<close>

datatype error = AttributeError | UnavailableDevice | LifecycleViolation | OtherError string

text \<open>
  An outcome of a method on state \<open>'s\<close> with return type \<open>'r\<close>: \<open>Inl (e, s)\<close> when
  it raised \<open>e\<close> and left the state \<open>s\<close>, \<open>Inr (r, s)\<close> when it returned \<open>r\<close>.
\<close>

type_synonym ('r, 's) outcome = "(error \<times> 's) + ('r \<times> 's)"

definition state_after :: "('r, 's) outcome \<Rightarrow> 's" where
  "state_after out = (case out of Inl (e, s) \<Rightarrow> s | Inr (r, s) \<Rightarrow> s)"

definition raised :: "('r, 's) outcome \<Rightarrow> bool" where
  "raised out = (case out of Inl x \<Rightarrow> True | Inr y \<Rightarrow> False)"

text \<open>
  Modelled from the spec: \<^verbatim>\<open>Module.to(device)\<close> and \<^verbatim>\<open>Module.cpu()\<close> of the tensor
  runtime. Relocation puts every parameter and buffer on the device and changes nothing
  else; a device the runtime cannot use makes it raise (the spec's unavailable-device
  error) and the module stays as it was. Host memory is always usable.
\<close>

definition tensor_to :: "torch_device \<Rightarrow> 't tensor \<Rightarrow> 't tensor" where
  "tensor_to d t = t\<lparr>tdevice := d\<rparr>"

definition move_module :: "torch_device \<Rightarrow> 't nn_module \<Rightarrow> 't nn_module" where
  "move_module d m =
     m\<lparr>parameters := map (tensor_to d) (parameters m),
       buffers := map (tensor_to d) (buffers m)\<rparr>"

definition Module_to :: "runtime \<Rightarrow> torch_device \<Rightarrow> 't nn_module \<Rightarrow> error + 't nn_module" where
  "Module_to rt d m = (if device_usable rt d then Inr (move_module d m) else Inl UnavailableDevice)"

definition Module_cpu :: "'t nn_module \<Rightarrow> 't nn_module" where
  "Module_cpu m = move_module cpu_device m"

text \<open>
  Modelled from the spec: \<^verbatim>\<open>torch.cuda.empty_cache()\<close> of the tensor runtime, the
  explicit release of ``device-side caching/allocator pools'': the pool is given back
  to the device.
\<close>

definition cuda_empty_cache :: "runtime \<Rightarrow> runtime" where
  "cuda_empty_cache rt = rt\<lparr>cuda_cache := 0\<rparr>"

subsection \<open>The strategy object\<close>

text \<open>
  The attributes of \<^verbatim>\<open>self\<close>. The base class \<^verbatim>\<open>Strategy\<close> holds the three injected
  ports and the model reference; \<^verbatim>\<open>SingleDeviceStrategy\<close> extends it with \<^verbatim>\<open>device\<close> and
  the three topology values, which its \<^verbatim>\<open>__init__\<close> assigns. A reference that may be
  \<^verbatim>\<open>None\<close> is an option.
\<close>

record ('t, 'acc, 'cio, 'pp) Strategy =
  accelerator :: "'acc option"
  checkpoint_io :: "'cio option"
  precision_plugin :: "'pp option"
  model :: "'t nn_module option"

record ('t, 'acc, 'cio, 'pp) SingleDeviceStrategy = "('t, 'acc, 'cio, 'pp) Strategy" +
  device :: torch_device
  global_rank :: int
  local_rank :: int
  world_size :: int

type_synonym ('t, 'acc, 'cio, 'pp) state = "('t, 'acc, 'cio, 'pp) SingleDeviceStrategy \<times> runtime"

text \<open>
  The base class \<^verbatim>\<open>Strategy\<close> is not among the sources. Its constructor and its two
  lifecycle hooks, \<^verbatim>\<open>super().setup(trainer)\<close> and \<^verbatim>\<open>super().teardown()\<close>, are parameters
  of the model: a hook is any function from the state to an outcome.
\<close>

type_synonym ('t, 'acc, 'cio, 'pp) hook =
  "('t, 'acc, 'cio, 'pp) state \<Rightarrow> (unit, ('t, 'acc, 'cio, 'pp) state) outcome"

text \<open>
  Modelled from the spec: the accessor \<^verbatim>\<open>self.lightning_module\<close> of the base class, which
  is not among the sources. The spec gives a strategy one reference to ``a model/module
  object'' that it relocates in setup and in teardown, so the accessor reads the same
  reference as \<^verbatim>\<open>self.model\<close>.
\<close>

definition lightning_module :: "('t, 'acc, 'cio, 'pp) SingleDeviceStrategy \<Rightarrow> 't nn_module option" where
  "lightning_module self = model self"

text \<open>
  \<^verbatim>\<open>__init__\<close>: the base constructor \<open>base_init\<close> runs first and makes the base part of
  the object, then the four assignments add the fields of the subclass.
\<close>

definition SingleDeviceStrategy_init ::
  "('acc option \<Rightarrow> 'cio option \<Rightarrow> 'pp option \<Rightarrow> ('t, 'acc, 'cio, 'pp) Strategy) \<Rightarrow>
   torch_device \<Rightarrow> 'acc option \<Rightarrow> 'cio option \<Rightarrow> 'pp option \<Rightarrow>
   ('t, 'acc, 'cio, 'pp) SingleDeviceStrategy" where
  "SingleDeviceStrategy_init base_init dev acc cio pp =
     Strategy.extend (base_init acc cio pp) (SingleDeviceStrategy.fields dev 0 0 1)"

text \<open>
  Modelled from the spec: the constructor of the base class, which is not among the
  sources: ``construct(device, accelerator-capability-handle, checkpoint-port,
  precision-port)'' keeps the injected ports, and the model is bound later by the
  orchestrator. It is used for concrete inputs only; the theorems hold for every base
  constructor.
\<close>

definition Strategy_init ::
  "'acc option \<Rightarrow> 'cio option \<Rightarrow> 'pp option \<Rightarrow> ('t, 'acc, 'cio, 'pp) Strategy" where
  "Strategy_init acc cio pp =
     \<lparr>accelerator = acc, checkpoint_io = cio, precision_plugin = pp, model = None\<rparr>"

subsection \<open>Properties\<close>

definition root_device :: "('t, 'acc, 'cio, 'pp) SingleDeviceStrategy \<Rightarrow> torch_device" where
  "root_device self = device self"

definition on_tpu :: "('t, 'acc, 'cio, 'pp) SingleDeviceStrategy \<Rightarrow> runtime \<Rightarrow> bool" where
  "on_tpu self rt = (dev_type (root_device self) = ''xla'' \<and> XLA_AVAILABLE rt)"

definition on_gpu :: "('t, 'acc, 'cio, 'pp) SingleDeviceStrategy \<Rightarrow> runtime \<Rightarrow> bool" where
  "on_gpu self rt = (dev_type (root_device self) = ''cuda'' \<and> cuda_is_available rt)"

definition is_global_zero :: "('t, 'acc, 'cio, 'pp) SingleDeviceStrategy \<Rightarrow> bool" where
  "is_global_zero self = True"

subsection \<open>Methods\<close>

text \<open>
  \<^verbatim>\<open>*args\<close> is a list and \<^verbatim>\<open>**kwargs\<close> a list of named values, of any type \<open>'x\<close>.
  The reduction operator of \<^verbatim>\<open>reduce\<close> travels in one of them.
\<close>

definition reduce ::
  "('t, 'acc, 'cio, 'pp) state \<Rightarrow> 'v \<Rightarrow> 'x list \<Rightarrow> (string \<times> 'x) list \<Rightarrow>
   ('v, ('t, 'acc, 'cio, 'pp) state) outcome" where
  "reduce st tensor args kwargs = Inr (tensor, st)"

definition all_gather ::
  "('t, 'acc, 'cio, 'pp) state \<Rightarrow> 'v \<Rightarrow> 'g option \<Rightarrow> bool \<Rightarrow>
   ('v, ('t, 'acc, 'cio, 'pp) state) outcome" where
  "all_gather st tensor process_group sync_grads = Inr (tensor, st)"

text \<open>
  \<^verbatim>\<open>self.model.to(self.root_device)\<close>: an attribute error when no model is attached,
  the runtime's error when the device cannot be used.
\<close>

definition model_to_device :: "('t, 'acc, 'cio, 'pp) hook" where
  "model_to_device st =
     (case st of (self, rt) \<Rightarrow>
        (case model self of
           None \<Rightarrow> Inl (AttributeError, st)
         | Some m \<Rightarrow>
             (case Module_to rt (root_device self) m of
                Inl e \<Rightarrow> Inl (e, st)
              | Inr m' \<Rightarrow> Inr ((), (self\<lparr>model := Some m'\<rparr>, rt)))))"

definition setup_strategy ::
  "('tr \<Rightarrow> ('t, 'acc, 'cio, 'pp) hook) \<Rightarrow> 'tr \<Rightarrow> ('t, 'acc, 'cio, 'pp) hook" where
  "setup_strategy Strategy_setup trainer st =
     (case model_to_device st of
        Inl x \<Rightarrow> Inl x
      | Inr (u, st1) \<Rightarrow> Strategy_setup trainer st1)"

definition barrier ::
  "('t, 'acc, 'cio, 'pp) state \<Rightarrow> 'x list \<Rightarrow> (string \<times> 'x) list \<Rightarrow>
   (unit, ('t, 'acc, 'cio, 'pp) state) outcome" where
  "barrier st args kwargs = Inr ((), st)"

definition broadcast ::
  "('t, 'acc, 'cio, 'pp) state \<Rightarrow> 'v \<Rightarrow> int \<Rightarrow> ('v, ('t, 'acc, 'cio, 'pp) state) outcome" where
  "broadcast st obj src = Inr (obj, st)"

text \<open>
  \<^verbatim>\<open>teardown\<close>: the base hook first; then, on a GPU only, the module goes to the host and
  the allocator's pool is released. \<^verbatim>\<open>self.on_gpu\<close> is read after the base hook ran.
\<close>

definition teardown :: "('t, 'acc, 'cio, 'pp) hook \<Rightarrow> ('t, 'acc, 'cio, 'pp) hook" where
  "teardown Strategy_teardown st =
     (case Strategy_teardown st of
        Inl x \<Rightarrow> Inl x
      | Inr (u, (self, rt)) \<Rightarrow>
          (if on_gpu self rt then
             (case lightning_module self of
                None \<Rightarrow> Inl (AttributeError, (self, rt))
              | Some m \<Rightarrow> Inr ((), (self\<lparr>model := Some (Module_cpu m)\<rparr>, cuda_empty_cache rt)))
           else Inr ((), (self, rt))))"

subsection \<open>Sequences of calls\<close>

text \<open>
  What the orchestrator may call, with the arguments of each call. A sequence of calls
  is run from left to right; a call that raises leaves its state behind and the next
  call starts there (the caller may have caught the exception).
\<close>

datatype ('v, 'x, 'g, 'tr) call =
    Reduce 'v "'x list" "(string \<times> 'x) list"
  | All_gather 'v "'g option" bool
  | Barrier "'x list" "(string \<times> 'x) list"
  | Broadcast 'v int
  | Model_to_device
  | Setup 'tr
  | Teardown

fun is_Setup :: "('v, 'x, 'g, 'tr) call \<Rightarrow> bool" where
  "is_Setup (Setup trainer) = True"
| "is_Setup c = False"

fun exec ::
  "('tr \<Rightarrow> ('t, 'acc, 'cio, 'pp) hook) \<Rightarrow> ('t, 'acc, 'cio, 'pp) hook \<Rightarrow>
   ('v, 'x, 'g, 'tr) call \<Rightarrow> ('t, 'acc, 'cio, 'pp) state \<Rightarrow> ('t, 'acc, 'cio, 'pp) state" where
  "exec hs ht (Reduce v args kwargs) st = state_after (reduce st v args kwargs)"
| "exec hs ht (All_gather v process_group sync_grads) st =
     state_after (all_gather st v process_group sync_grads)"
| "exec hs ht (Barrier args kwargs) st = state_after (barrier st args kwargs)"
| "exec hs ht (Broadcast v src) st = state_after (broadcast st v src)"
| "exec hs ht Model_to_device st = state_after (model_to_device st)"
| "exec hs ht (Setup trainer) st = state_after (setup_strategy hs trainer st)"
| "exec hs ht Teardown st = state_after (teardown ht st)"

fun run ::
  "('tr \<Rightarrow> ('t, 'acc, 'cio, 'pp) hook) \<Rightarrow> ('t, 'acc, 'cio, 'pp) hook \<Rightarrow>
   ('v, 'x, 'g, 'tr) call list \<Rightarrow> ('t, 'acc, 'cio, 'pp) state \<Rightarrow> ('t, 'acc, 'cio, 'pp) state" where
  "run hs ht [] st = st"
| "run hs ht (c # cs) st = run hs ht cs (exec hs ht c st)"

text \<open>The three topology values of a strategy, and the invariant on them.\<close>

definition topology :: "('t, 'acc, 'cio, 'pp) SingleDeviceStrategy \<Rightarrow> int \<times> int \<times> int" where
  "topology self = (global_rank self, local_rank self, world_size self)"

definition topology_ok :: "('t, 'acc, 'cio, 'pp) SingleDeviceStrategy \<Rightarrow> bool" where
  "topology_ok self = (global_rank self = 0 \<and> local_rank self = 0 \<and> world_size self = 1)"

text \<open>
  What the topology invariant needs of a base-class hook: the hook does not assign the
  three topology values, whether it returns or raises.
\<close>

definition keeps_topology :: "('t, 'acc, 'cio, 'pp) hook \<Rightarrow> bool" where
  "keeps_topology h = (\<forall>st. topology (fst (state_after (h st))) = topology (fst st))"

subsection \<open>Concrete inputs\<close>

text \<open>
  Two base-class hooks, two accelerator devices, a module of three tensors, a runtime
  and a strategy, for the concrete instances below. The strategy is built by the
  constructor and a model is then bound to it.
\<close>

definition noop_hook :: "('t, 'acc, 'cio, 'pp) hook" where
  "noop_hook st = Inr ((), st)"

definition failing_hook :: "('t, 'acc, 'cio, 'pp) hook" where
  "failing_hook st = Inl (OtherError ''precision plugin'', st)"

definition cuda_0 :: torch_device where
  "cuda_0 = \<lparr>dev_type = ''cuda'', dev_index = Some 0\<rparr>"

definition xla_0 :: torch_device where
  "xla_0 = \<lparr>dev_type = ''xla'', dev_index = Some 0\<rparr>"

definition example_module :: "torch_device \<Rightarrow> int nn_module" where
  "example_module d =
     \<lparr>parameters = [\<lparr>data = 3, tdevice = d\<rparr>, \<lparr>data = 5, tdevice = d\<rparr>],
      buffers = [\<lparr>data = 8, tdevice = d\<rparr>]\<rparr>"

definition example_runtime :: runtime where
  "example_runtime =
     \<lparr>cuda_is_available = True, XLA_AVAILABLE = True, cuda_cache = 4096,
      device_usable = (\<lambda>d. True)\<rparr>"

definition example_strategy ::
  "torch_device \<Rightarrow> int nn_module option \<Rightarrow> (int, unit, unit, unit) SingleDeviceStrategy" where
  "example_strategy d m =
     (SingleDeviceStrategy_init Strategy_init d None None None)\<lparr>model := m\<rparr>"

section \<open>Basic facts\<close>

lemma state_after_simps [simp]:
  "state_after (Inl (e, s)) = s" "state_after (Inr (r, s)) = s"
  by (simp_all add: state_after_def)

lemma raised_simps [simp]: "raised (Inl x) = True" "raised (Inr y) = False"
  by (simp_all add: raised_def)

lemma resides_move_module: "resides (move_module d m) d"
  by (auto simp: resides_def tensors_def move_module_def tensor_to_def list_all_iff)

lemma move_module_twice: "move_module d (move_module d m) = move_module d m"
  by (simp add: move_module_def tensor_to_def)

lemma move_module_data: "map data (tensors (move_module d m)) = map data (tensors m)"
  by (simp add: tensors_def move_module_def tensor_to_def comp_def)

lemma resides_Module_cpu: "resides (Module_cpu m) cpu_device"
  by (simp add: Module_cpu_def resides_move_module)

lemma move_example_module: "move_module d (example_module d') = example_module d"
  by (simp add: move_module_def example_module_def tensor_to_def)

lemma model_example_strategy [simp]:
  "model (example_strategy d m) = m" "device (example_strategy d m) = d"
  by (simp_all add: example_strategy_def SingleDeviceStrategy_init_def Strategy.defs
      SingleDeviceStrategy.defs)

lemma relocate_example_strategy:
  "(example_strategy d m)\<lparr>model := m'\<rparr> = example_strategy d m'"
  by (simp add: example_strategy_def)

section \<open>Collective operations\<close>

text \<open>
  C1. \<^verbatim>\<open>reduce\<close> returns its input unchanged, for every input value, every extra
  positional and keyword argument (the reduction operator among them) and every state of
  the strategy and the runtime, and it leaves that state as it was.
\<close>

theorem reduce_identity:
  "reduce st v args kwargs = Inr (v, st)"
  by (simp add: reduce_def)

text \<open>
  C5. \<^verbatim>\<open>all_gather\<close> returns the tensor it was given, for every tensor, every group
  and both values of \<^verbatim>\<open>sync_grads\<close>, and leaves the state as it was.
\<close>

theorem all_gather_identity:
  "all_gather st t process_group sync_grads = Inr (t, st)"
  by (simp add: all_gather_def)

text \<open>
  C6. \<^verbatim>\<open>broadcast\<close> returns the object it was given, for every object and every source
  rank; two calls that differ in the source rank only have the same outcome.
\<close>

theorem broadcast_identity:
  "broadcast st obj src = Inr (obj, st) \<and> broadcast st obj src = broadcast st obj src'"
  by (simp add: broadcast_def)

text \<open>
  C8. \<^verbatim>\<open>barrier\<close> is a no-op for any arguments: its outcome is a return (it has nothing
  to wait for), the value returned is \<^verbatim>\<open>None\<close>, and the strategy and the runtime are
  left exactly as they were.
\<close>

theorem barrier_noop:
  "barrier st args kwargs = Inr ((), st)"
  by (simp add: barrier_def)

text \<open>
  C7. \<^verbatim>\<open>is_global_zero\<close> is true of every strategy object, and so of the one any
  sequence of calls leaves behind, from any state and whatever the base-class hooks do.
\<close>

theorem is_global_zero_always:
  "is_global_zero self \<and> is_global_zero (fst (run hs ht calls st))"
  by (simp add: is_global_zero_def)

text \<open>
  C4. The strategy keeps no lifecycle state, and \<^verbatim>\<open>reduce\<close> does not ask whether
  \<^verbatim>\<open>setup\<close> has run. On a strategy fresh from its constructor, and after any sequence of
  calls none of which is \<^verbatim>\<open>setup\<close>, \<^verbatim>\<open>reduce\<close> returns its input unchanged and raises
  nothing.
\<close>

theorem reduce_before_setup:
  assumes "list_all (\<lambda>c. \<not> is_Setup c) calls"
    and "st = run hs ht calls (SingleDeviceStrategy_init base_init dev acc cio pp, rt)"
  shows "reduce st v args kwargs = Inr (v, st) \<and> \<not> raised (reduce st v args kwargs)"
  by (simp add: reduce_def)

text \<open>
  An instance: four calls, none of them \<^verbatim>\<open>setup\<close>, on a fresh strategy for
  \<^verbatim>\<open>cuda:0\<close>, then \<^verbatim>\<open>reduce(41, "sum")\<close>.
\<close>

theorem reduce_before_setup_witness:
  "list_all (\<lambda>c. \<not> is_Setup c)
     [Barrier [] [], Broadcast (1 :: int) 0, All_gather 2 (None :: unit option) True,
      Teardown :: (int, string, unit, unit) call] \<and>
   \<not> raised (reduce
     (run (\<lambda>trainer :: unit. noop_hook) noop_hook
        [Barrier [] [], Broadcast (1 :: int) 0, All_gather 2 (None :: unit option) True,
         Teardown :: (int, string, unit, unit) call]
        (SingleDeviceStrategy_init Strategy_init cuda_0 None None None ::
            (int, unit, unit, unit) SingleDeviceStrategy, example_runtime))
     (41 :: int) [''sum''] [])"
proof -
  have pre: "list_all (\<lambda>c. \<not> is_Setup c)
     [Barrier [] [], Broadcast (1 :: int) 0, All_gather 2 (None :: unit option) True,
      Teardown :: (int, string, unit, unit) call]"
    by simp
  show ?thesis
    using pre reduce_before_setup [OF pre refl, of "\<lambda>trainer :: unit. noop_hook" noop_hook
        Strategy_init cuda_0 None None None example_runtime "41 :: int" "[''sum'']" "[]"]
    by blast
qed

text \<open>
  The spec asks for a lifecycle-violation error here. A strategy fresh from its
  constructor, never set up, answers \<^verbatim>\<open>reduce(41, "sum")\<close> with 41.
\<close>

theorem reduce_before_setup_counterexample:
  "reduce (SingleDeviceStrategy_init Strategy_init cuda_0 None None None ::
            (int, unit, unit, unit) SingleDeviceStrategy, example_runtime)
     (41 :: int) [''sum''] [] =
   Inr (41, (SingleDeviceStrategy_init Strategy_init cuda_0 None None None, example_runtime)) \<and>
   \<not> raised (reduce (SingleDeviceStrategy_init Strategy_init cuda_0 None None None ::
            (int, unit, unit, unit) SingleDeviceStrategy, example_runtime)
     (41 :: int) [''sum''] [])"
  by (simp add: reduce_def)

section \<open>Placement\<close>

lemma model_to_device_Inr:
  "model_to_device (self, rt) = Inr (u, st1) \<longleftrightarrow>
     (\<exists>m. model self = Some m \<and> device_usable rt (root_device self) \<and>
          st1 = (self\<lparr>model := Some (move_module (root_device self) m)\<rparr>, rt))"
  by (auto simp: model_to_device_def Module_to_def split: option.splits)

lemma model_to_device_Inl:
  "model_to_device st = Inl (e, st1) \<Longrightarrow> st1 = st"
  by (auto simp: model_to_device_def Module_to_def split: option.splits prod.splits if_splits)

text \<open>
  C9. \<^verbatim>\<open>model_to_device\<close> is idempotent. The state two calls in succession leave is the
  state one call leaves, whatever the model and the root device, also when the call
  raises. When the first call returns, the second returns too and changes nothing: the
  model still resides on the root device.
\<close>

theorem model_to_device_idempotent:
  "state_after (model_to_device (state_after (model_to_device st))) =
     state_after (model_to_device st) \<and>
   (model_to_device st = Inr (u, st1) \<longrightarrow>
      model_to_device st1 = Inr ((), st1) \<and>
      (\<exists>m. model (fst st1) = Some m \<and> resides m (root_device (fst st1))))"
proof (cases st)
  case (Pair self rt)
  show ?thesis
  proof (cases "model_to_device st")
    case (Inl x)
    obtain e st' where x: "x = (e, st')" by (cases x)
    with Inl have "st' = st" by (auto dest: model_to_device_Inl)
    with Inl x show ?thesis by simp
  next
    case (Inr y)
    obtain u' st' where y: "y = (u', st')" by (cases y)
    from Inr y Pair obtain m where m: "model self = Some m" "device_usable rt (root_device self)"
      "st' = (self\<lparr>model := Some (move_module (root_device self) m)\<rparr>, rt)"
      by (auto simp: model_to_device_Inr)
    have again: "model_to_device st' = Inr ((), st')"
      using m by (simp add: model_to_device_def Module_to_def root_device_def move_module_twice)
    show ?thesis using Inr y again m
      by (auto simp: root_device_def resides_move_module)
  qed
qed

text \<open>
  An instance: a model built on the host, root device \<^verbatim>\<open>cuda:0\<close>. One call puts the
  model on \<^verbatim>\<open>cuda:0\<close>; a second call returns and the model is where it was.
\<close>

theorem model_to_device_idempotent_witness:
  "model_to_device (example_strategy cuda_0 (Some (example_module cpu_device)), example_runtime) =
     Inr ((), (example_strategy cuda_0 (Some (example_module cuda_0)), example_runtime)) \<and>
   model_to_device (example_strategy cuda_0 (Some (example_module cuda_0)), example_runtime) =
     Inr ((), (example_strategy cuda_0 (Some (example_module cuda_0)), example_runtime))"
proof -
  have first: "model_to_device
      (example_strategy cuda_0 (Some (example_module cpu_device)), example_runtime) =
     Inr ((), (example_strategy cuda_0 (Some (example_module cuda_0)), example_runtime))"
    by (simp add: model_to_device_def Module_to_def root_device_def example_runtime_def
        move_example_module relocate_example_strategy)
  show ?thesis
    using first model_to_device_idempotent
      [of "(example_strategy cuda_0 (Some (example_module cpu_device)), example_runtime)" "()"
        "(example_strategy cuda_0 (Some (example_module cuda_0)), example_runtime)"]
    by blast
qed

section \<open>The topology invariant\<close>

lemma keeps_topologyD:
  "keeps_topology h \<Longrightarrow> topology (fst (state_after (h st))) = topology (fst st)"
  unfolding keeps_topology_def by blast

lemma keeps_topology_noop: "keeps_topology noop_hook"
  by (simp add: keeps_topology_def noop_hook_def)

lemma keeps_topology_failing: "keeps_topology failing_hook"
  by (simp add: keeps_topology_def failing_hook_def)

lemma topology_model_to_device:
  "topology (fst (state_after (model_to_device st))) = topology (fst st)"
  by (cases st)
    (auto simp: model_to_device_def Module_to_def topology_def split: option.splits)

lemma topology_setup:
  assumes "keeps_topology (hs trainer)"
  shows "topology (fst (state_after (setup_strategy hs trainer st))) = topology (fst st)"
proof (cases "model_to_device st")
  case (Inl x)
  then have "state_after (setup_strategy hs trainer st) = state_after (model_to_device st)"
    by (simp add: setup_strategy_def)
  then show ?thesis by (simp add: topology_model_to_device)
next
  case (Inr y)
  obtain u st1 where y: "y = (u, st1)" by (cases y)
  from Inr y have "setup_strategy hs trainer st = hs trainer st1"
    by (simp add: setup_strategy_def)
  moreover from Inr y have "st1 = state_after (model_to_device st)" by simp
  ultimately show ?thesis
    using keeps_topologyD [OF assms, of st1] by (simp add: topology_model_to_device)
qed

lemma topology_teardown:
  assumes "keeps_topology ht"
  shows "topology (fst (state_after (teardown ht st))) = topology (fst st)"
proof -
  have h: "topology (fst (state_after (ht st))) = topology (fst st)"
    using assms by (rule keeps_topologyD)
  show ?thesis
  proof (cases "ht st")
    case (Inl x)
    then have "teardown ht st = Inl x" by (simp add: teardown_def)
    with Inl h show ?thesis by simp
  next
    case (Inr y)
    obtain u self rt where y: "y = (u, (self, rt))" by (cases y) auto
    from Inr y h have t: "topology self = topology (fst st)" by simp
    from Inr y have "topology (fst (state_after (teardown ht st))) = topology self"
      by (auto simp: teardown_def topology_def split: option.splits)
    with t show ?thesis by simp
  qed
qed

lemma topology_exec:
  assumes "\<forall>trainer. keeps_topology (hs trainer)" and "keeps_topology ht"
  shows "topology (fst (exec hs ht c st)) = topology (fst st)"
  using assms
  by (cases c)
    (simp_all add: reduce_def all_gather_def barrier_def broadcast_def
      topology_model_to_device topology_setup topology_teardown)

lemma topology_run:
  assumes "\<forall>trainer. keeps_topology (hs trainer)" and "keeps_topology ht"
  shows "topology (fst (run hs ht cs st)) = topology (fst st)"
  using assms
  by (induction cs arbitrary: st) (simp_all add: topology_exec)

lemma topology_ok_iff: "topology_ok self \<longleftrightarrow> topology self = (0, 0, 1)"
  by (auto simp: topology_ok_def topology_def)

lemma topology_ok_init: "topology_ok (SingleDeviceStrategy_init base_init dev acc cio pp)"
  by (simp add: topology_ok_def SingleDeviceStrategy_init_def Strategy.defs
      SingleDeviceStrategy.defs)

text \<open>
  C2. The topology invariant: \<^verbatim>\<open>global_rank == 0\<close>, \<^verbatim>\<open>local_rank == 0\<close> and
  \<^verbatim>\<open>world_size == 1\<close> hold of the object the constructor makes, whatever the base
  constructor does, and no sequence of calls of \<^verbatim>\<open>reduce\<close>, \<^verbatim>\<open>all_gather\<close>, \<^verbatim>\<open>barrier\<close>,
  \<^verbatim>\<open>broadcast\<close>, \<^verbatim>\<open>model_to_device\<close>, \<^verbatim>\<open>setup\<close> and \<^verbatim>\<open>teardown\<close> changes the three values,
  whether the calls return or raise. The two hooks of the base class, which \<^verbatim>\<open>setup\<close>
  and \<^verbatim>\<open>teardown\<close> call, are assumed not to assign the three values.
\<close>

theorem topology_invariant:
  assumes "\<forall>trainer. keeps_topology (hs trainer)" and "keeps_topology ht"
  shows "topology_ok (SingleDeviceStrategy_init base_init dev acc cio pp) \<and>
         topology (fst (run hs ht calls (self, rt))) = topology self \<and>
         (topology_ok self \<longrightarrow> topology_ok (fst (run hs ht calls (self, rt))))"
proof -
  have "topology (fst (run hs ht calls (self, rt))) = topology self"
    using assms by (simp add: topology_run)
  then show ?thesis
    by (simp add: topology_ok_init topology_ok_iff [of self]
        topology_ok_iff [of "fst (run hs ht calls (self, rt))"])
qed

text \<open>
  An instance: a base \<^verbatim>\<open>setup\<close> hook that does nothing, a base \<^verbatim>\<open>teardown\<close> hook that
  raises, and eight calls on a strategy for \<^verbatim>\<open>cuda:0\<close> with a model built on the host.
\<close>

theorem topology_invariant_witness:
  "keeps_topology (noop_hook :: (int, unit, unit, unit) hook) \<and>
   keeps_topology (failing_hook :: (int, unit, unit, unit) hook) \<and>
   topology_ok (example_strategy cuda_0 (Some (example_module cpu_device))) \<and>
   topology_ok (fst (run (\<lambda>trainer :: unit. noop_hook) failing_hook
     [Setup (), Reduce (7 :: int) [''mean''] [], All_gather 7 (None :: unit option) False,
      Barrier [] [], Broadcast 7 0, Model_to_device, Teardown, Teardown]
     (example_strategy cuda_0 (Some (example_module cpu_device)), example_runtime)))"
proof -
  have ok: "topology_ok (example_strategy cuda_0 (Some (example_module cpu_device)))"
    by (simp add: example_strategy_def topology_ok_def SingleDeviceStrategy_init_def
        Strategy.defs SingleDeviceStrategy.defs)
  have hs: "\<forall>trainer :: unit. keeps_topology (noop_hook :: (int, unit, unit, unit) hook)"
    by (simp add: keeps_topology_noop)
  have "topology_ok (fst (run (\<lambda>trainer :: unit. noop_hook) failing_hook
     [Setup (), Reduce (7 :: int) [''mean''] [], All_gather 7 (None :: unit option) False,
      Barrier [] [], Broadcast 7 0, Model_to_device, Teardown, Teardown]
     (example_strategy cuda_0 (Some (example_module cpu_device)), example_runtime)))"
    using topology_invariant [OF hs keeps_topology_failing,
        of Strategy_init cpu_device None None None
          "[Setup (), Reduce (7 :: int) [''mean''] [], All_gather 7 (None :: unit option) False,
            Barrier [] [], Broadcast 7 0, Model_to_device, Teardown, Teardown]"
          "example_strategy cuda_0 (Some (example_module cpu_device))" example_runtime] ok
    by blast
  with ok show ?thesis
    using keeps_topology_noop keeps_topology_failing by blast
qed

section \<open>Teardown\<close>

lemma teardown_on_gpu:
  assumes "ht st = Inr (u, (self1, rt1))" and "on_gpu self1 rt1" and "model self1 = Some m"
  shows "teardown ht st =
    Inr ((), (self1\<lparr>model := Some (Module_cpu m)\<rparr>, rt1\<lparr>cuda_cache := 0\<rparr>))"
  using assms by (simp add: teardown_def lightning_module_def cuda_empty_cache_def)

lemma teardown_not_on_gpu:
  assumes "ht st = Inr (u, (self1, rt1))" and "\<not> on_gpu self1 rt1"
  shows "teardown ht st = Inr ((), (self1, rt1))"
  using assms by (simp add: teardown_def)





text \<open>
  C10. \<^verbatim>\<open>teardown\<close> with a model attached relocates and releases exactly when
  \<^verbatim>\<open>on_gpu\<close> holds. Let the base-class hook return and leave the strategy \<open>self1\<close> and
  the runtime \<open>rt1\<close>. \<^verbatim>\<open>on_gpu\<close> is: the root device is of type \<^verbatim>\<open>"cuda"\<close> and the CUDA
  runtime is available. When it holds and a model \<open>m\<close> is attached, the model goes to
  the host and the allocator's pool is emptied. When it does not hold (an \<^verbatim>\<open>"xla"\<close>
  device, a \<^verbatim>\<open>"cuda"\<close> device with no CUDA runtime, the host), \<^verbatim>\<open>teardown\<close> returns the
  state the hook left: the model is on the device it was on and the pool holds what it
  held.
\<close>

theorem teardown_exactly_on_gpu:
  assumes "ht st = Inr (u, (self1, rt1))"
  shows "(on_gpu self1 rt1 \<longleftrightarrow>
            dev_type (root_device self1) = ''cuda'' \<and> cuda_is_available rt1) \<and>
         (on_gpu self1 rt1 \<longrightarrow> model self1 = Some m \<longrightarrow>
            teardown ht st =
              Inr ((), (self1\<lparr>model := Some (Module_cpu m)\<rparr>, rt1\<lparr>cuda_cache := 0\<rparr>)) \<and>
            resides (Module_cpu m) cpu_device) \<and>
         (\<not> on_gpu self1 rt1 \<longrightarrow> teardown ht st = Inr ((), (self1, rt1)))"
proof (intro conjI impI)
  show "on_gpu self1 rt1 \<longleftrightarrow> dev_type (root_device self1) = ''cuda'' \<and> cuda_is_available rt1"
    by (simp add: on_gpu_def)
next
  assume "on_gpu self1 rt1" and "model self1 = Some m"
  with assms show "teardown ht st =
      Inr ((), (self1\<lparr>model := Some (Module_cpu m)\<rparr>, rt1\<lparr>cuda_cache := 0\<rparr>))"
    by (rule teardown_on_gpu)
next
  show "resides (Module_cpu m) cpu_device" by (rule resides_Module_cpu)
next
  assume "\<not> on_gpu self1 rt1"
  with assms show "teardown ht st = Inr ((), (self1, rt1))"
    by (rule teardown_not_on_gpu)
qed

text \<open>
  Three instances with a base hook that does nothing: \<^verbatim>\<open>cuda:0\<close> with CUDA available
  (the model goes to the host, the pool is emptied), \<^verbatim>\<open>cuda:0\<close> with CUDA unavailable
  and \<^verbatim>\<open>xla:0\<close> (nothing changes).
\<close>

theorem teardown_exactly_on_gpu_witness:
  "teardown noop_hook (example_strategy cuda_0 (Some (example_module cuda_0)), example_runtime) =
     Inr ((), (example_strategy cuda_0 (Some (example_module cpu_device)),
               example_runtime\<lparr>cuda_cache := 0\<rparr>)) \<and>
   teardown noop_hook (example_strategy cuda_0 (Some (example_module cuda_0)),
       example_runtime\<lparr>cuda_is_available := False\<rparr>) =
     Inr ((), (example_strategy cuda_0 (Some (example_module cuda_0)),
               example_runtime\<lparr>cuda_is_available := False\<rparr>)) \<and>
   teardown noop_hook (example_strategy xla_0 (Some (example_module xla_0)), example_runtime) =
     Inr ((), (example_strategy xla_0 (Some (example_module xla_0)), example_runtime))"
proof -
  let ?c = "example_strategy cuda_0 (Some (example_module cuda_0))"
  let ?x = "example_strategy xla_0 (Some (example_module xla_0))"
  let ?off = "example_runtime\<lparr>cuda_is_available := False\<rparr>"
  have cpu: "Module_cpu (example_module cuda_0) = example_module cpu_device"
    by (simp add: Module_cpu_def move_example_module)
  have gpu: "on_gpu ?c example_runtime"
    by (simp add: on_gpu_def root_device_def cuda_0_def example_runtime_def)
  have off: "\<not> on_gpu ?c ?off"
    by (simp add: on_gpu_def)
  have xla: "\<not> on_gpu ?x example_runtime"
    by (simp add: on_gpu_def root_device_def xla_0_def)
  have h: "noop_hook st = Inr ((), st)" for st :: "(int, unit, unit, unit) state"
    by (simp add: noop_hook_def)
  show ?thesis
    using teardown_exactly_on_gpu [of noop_hook "(?c, example_runtime)" "()" ?c example_runtime
        "example_module cuda_0"]
      teardown_exactly_on_gpu [of noop_hook "(?c, ?off)" "()" ?c ?off "example_module cuda_0"]
      teardown_exactly_on_gpu [of noop_hook "(?x, example_runtime)" "()" ?x example_runtime
        "example_module xla_0"]
      gpu off xla
    by (simp add: h cpu relocate_example_strategy)
qed

text \<open>
  Without the condition on the model the statement fails. Root device \<^verbatim>\<open>cuda:0\<close>, CUDA
  available, no model attached, a base hook that does nothing: \<^verbatim>\<open>on_gpu\<close> holds, and
  \<^verbatim>\<open>self.lightning_module.cpu()\<close> raises an attribute error before
  \<^verbatim>\<open>torch.cuda.empty_cache()\<close> is reached, so nothing is relocated and the pool still
  holds its 4096 bytes.
\<close>

theorem teardown_no_model_counterexample:
  "on_gpu (example_strategy cuda_0 None) example_runtime \<and>
   teardown noop_hook (example_strategy cuda_0 None, example_runtime) =
     Inl (AttributeError, (example_strategy cuda_0 None, example_runtime)) \<and>
   cuda_cache (snd (state_after
     (teardown noop_hook (example_strategy cuda_0 None, example_runtime)))) = 4096"
  by (simp add: teardown_def noop_hook_def on_gpu_def root_device_def cuda_0_def
      lightning_module_def example_runtime_def)

end
